theory Spec2Isabelle
  imports Main
begin

section \<open>The configuration store of the streaming-avatar panel\<close>

text \<open>
  The store is a zustand container created by \<^verbatim>\<open>create(persist((set, get) => ({...}), {...}))\<close>.
  Its state object is embedded as a record of the data fields, every action as a function from
  the state before the call to the state after it, and every getter as a function of the state
  that \<^verbatim>\<open>get()\<close> returns.
\<close>

subsection \<open>Field types\<close>

text \<open>
  Modelled from the spec: \<^verbatim>\<open>StreamProviderType\<close> is declared in
  \<^verbatim>\<open>../types/streaming.types\<close>; its members are the ones the store's initial state
  casts to, \<^verbatim>\<open>'agora' | 'livekit' | 'trtc'\<close>.
\<close>

datatype StreamProviderType = agora | livekit | trtc

text \<open>
  Modelled from the spec: \<^verbatim>\<open>AuthMethod\<close>, \<^verbatim>\<open>SceneMode\<close> and \<^verbatim>\<open>E2EType\<close> are declared in
  \<^verbatim>\<open>../types/api.schemas\<close>; the members are the ones of the spec's data model, which are also
  the literals the panel passes to the setters.
\<close>

datatype AuthMethod = token | apiKey

datatype SceneMode = fast_dialogue | meeting

datatype E2EType = openai

text \<open>The union \<^verbatim>\<open>T | ''\<close> of the fields \<^verbatim>\<open>sceneMode\<close> and \<^verbatim>\<open>e2eType\<close>.\<close>

datatype 'a or_empty = EmptyString | NonEmpty 'a

text \<open>The union \<^verbatim>\<open>'low' | 'medium' | 'high'\<close> of the two quality fields.\<close>

datatype Quality = low | medium | high

text \<open>
  A \<^verbatim>\<open>Record<string, unknown>\<close> is a list of the object's own properties in insertion order;
  the type of the values is a parameter. The two \<^verbatim>\<open>number\<close> fields are integers, as the spec's
  data model declares them (minutes, and a mode in a small range).
\<close>

type_synonym 'u js_record = "(string \<times> 'u) list"

record 'u ConfigurationState =
  selectedProvider :: StreamProviderType
  openapiHost :: string
  openapiCredential :: string
  authMethod :: AuthMethod
  avatarId :: string
  voiceId :: string
  knowledgeId :: string
  sessionDuration :: int
  modeType :: int
  language :: string
  sceneMode :: "SceneMode or_empty"
  e2eType :: "E2EType or_empty"
  backgroundUrl :: string
  voiceUrl :: string
  voiceParams :: "'u js_record"
  videoEnabled :: bool
  audioEnabled :: bool
  videoQuality :: Quality
  audioQuality :: Quality

subsection \<open>Partial states and the merge of \<^verbatim>\<open>set\<close>\<close>

text \<open>
  The argument of \<^verbatim>\<open>set\<close>, and the object \<^verbatim>\<open>partialize\<close> returns, is an object literal that
  gives some fields of the state: a list of properties, each tagged with the field it names.
\<close>

datatype 'u property =
    SelectedProvider StreamProviderType
  | OpenapiHost string
  | OpenapiCredential string
  | AuthMethodP AuthMethod
  | AvatarId string
  | VoiceId string
  | KnowledgeId string
  | SessionDuration int
  | ModeType int
  | Language string
  | SceneModeP "SceneMode or_empty"
  | E2eType "E2EType or_empty"
  | BackgroundUrl string
  | VoiceUrl string
  | VoiceParams "'u js_record"
  | VideoEnabled bool
  | AudioEnabled bool
  | VideoQuality Quality
  | AudioQuality Quality

fun property_key :: "'u property \<Rightarrow> string" where
  "property_key (SelectedProvider _) = ''selectedProvider''"
| "property_key (OpenapiHost _) = ''openapiHost''"
| "property_key (OpenapiCredential _) = ''openapiCredential''"
| "property_key (AuthMethodP _) = ''authMethod''"
| "property_key (AvatarId _) = ''avatarId''"
| "property_key (VoiceId _) = ''voiceId''"
| "property_key (KnowledgeId _) = ''knowledgeId''"
| "property_key (SessionDuration _) = ''sessionDuration''"
| "property_key (ModeType _) = ''modeType''"
| "property_key (Language _) = ''language''"
| "property_key (SceneModeP _) = ''sceneMode''"
| "property_key (E2eType _) = ''e2eType''"
| "property_key (BackgroundUrl _) = ''backgroundUrl''"
| "property_key (VoiceUrl _) = ''voiceUrl''"
| "property_key (VoiceParams _) = ''voiceParams''"
| "property_key (VideoEnabled _) = ''videoEnabled''"
| "property_key (AudioEnabled _) = ''audioEnabled''"
| "property_key (VideoQuality _) = ''videoQuality''"
| "property_key (AudioQuality _) = ''audioQuality''"

text \<open>Writing one property of a partial state into the state.\<close>

fun assign :: "'u property \<Rightarrow> 'u ConfigurationState \<Rightarrow> 'u ConfigurationState" where
  "assign (SelectedProvider v) state = state\<lparr>selectedProvider := v\<rparr>"
| "assign (OpenapiHost v) state = state\<lparr>openapiHost := v\<rparr>"
| "assign (OpenapiCredential v) state = state\<lparr>openapiCredential := v\<rparr>"
| "assign (AuthMethodP v) state = state\<lparr>authMethod := v\<rparr>"
| "assign (AvatarId v) state = state\<lparr>avatarId := v\<rparr>"
| "assign (VoiceId v) state = state\<lparr>voiceId := v\<rparr>"
| "assign (KnowledgeId v) state = state\<lparr>knowledgeId := v\<rparr>"
| "assign (SessionDuration v) state = state\<lparr>sessionDuration := v\<rparr>"
| "assign (ModeType v) state = state\<lparr>modeType := v\<rparr>"
| "assign (Language v) state = state\<lparr>language := v\<rparr>"
| "assign (SceneModeP v) state = state\<lparr>sceneMode := v\<rparr>"
| "assign (E2eType v) state = state\<lparr>e2eType := v\<rparr>"
| "assign (BackgroundUrl v) state = state\<lparr>backgroundUrl := v\<rparr>"
| "assign (VoiceUrl v) state = state\<lparr>voiceUrl := v\<rparr>"
| "assign (VoiceParams v) state = state\<lparr>voiceParams := v\<rparr>"
| "assign (VideoEnabled v) state = state\<lparr>videoEnabled := v\<rparr>"
| "assign (AudioEnabled v) state = state\<lparr>audioEnabled := v\<rparr>"
| "assign (VideoQuality v) state = state\<lparr>videoQuality := v\<rparr>"
| "assign (AudioQuality v) state = state\<lparr>audioQuality := v\<rparr>"

text \<open>
  zustand's \<^verbatim>\<open>set(partial)\<close> replaces the state by \<^verbatim>\<open>Object.assign({}, state, partial)\<close>: the
  properties of the partial state are written over the old state, in their order, and every
  other field keeps its value.
\<close>

fun set_state :: "'u property list \<Rightarrow> 'u ConfigurationState \<Rightarrow> 'u ConfigurationState" where
  "set_state [] state = state"
| "set_state (p # partial) state = set_state partial (assign p state)"

subsection \<open>Actions\<close>

definition setSelectedProvider :: "StreamProviderType \<Rightarrow> 'u ConfigurationState \<Rightarrow> 'u ConfigurationState" where
  "setSelectedProvider provider = set_state [SelectedProvider provider]"

definition setOpenapiHost :: "string \<Rightarrow> 'u ConfigurationState \<Rightarrow> 'u ConfigurationState" where
  "setOpenapiHost host = set_state [OpenapiHost host]"

definition setOpenapiCredential :: "string \<Rightarrow> 'u ConfigurationState \<Rightarrow> 'u ConfigurationState" where
  "setOpenapiCredential credential = set_state [OpenapiCredential credential]"

definition setAuthMethod :: "AuthMethod \<Rightarrow> 'u ConfigurationState \<Rightarrow> 'u ConfigurationState" where
  "setAuthMethod method = set_state [AuthMethodP method]"

definition setAvatarId :: "string \<Rightarrow> 'u ConfigurationState \<Rightarrow> 'u ConfigurationState" where
  "setAvatarId avatarId' = set_state [AvatarId avatarId']"

definition setVoiceId :: "string \<Rightarrow> 'u ConfigurationState \<Rightarrow> 'u ConfigurationState" where
  "setVoiceId voiceId' = set_state [VoiceId voiceId']"

definition setKnowledgeId :: "string \<Rightarrow> 'u ConfigurationState \<Rightarrow> 'u ConfigurationState" where
  "setKnowledgeId knowledgeId' = set_state [KnowledgeId knowledgeId']"

definition setSessionDuration :: "int \<Rightarrow> 'u ConfigurationState \<Rightarrow> 'u ConfigurationState" where
  "setSessionDuration duration = set_state [SessionDuration duration]"

definition setModeType :: "int \<Rightarrow> 'u ConfigurationState \<Rightarrow> 'u ConfigurationState" where
  "setModeType modeType' = set_state [ModeType modeType']"

definition setLanguage :: "string \<Rightarrow> 'u ConfigurationState \<Rightarrow> 'u ConfigurationState" where
  "setLanguage language' = set_state [Language language']"

definition setSceneMode :: "SceneMode or_empty \<Rightarrow> 'u ConfigurationState \<Rightarrow> 'u ConfigurationState" where
  "setSceneMode sceneMode' = set_state [SceneModeP sceneMode']"

definition setE2eType :: "E2EType or_empty \<Rightarrow> 'u ConfigurationState \<Rightarrow> 'u ConfigurationState" where
  "setE2eType e2eType' = set_state [E2eType e2eType']"

definition setBackgroundUrl :: "string \<Rightarrow> 'u ConfigurationState \<Rightarrow> 'u ConfigurationState" where
  "setBackgroundUrl url = set_state [BackgroundUrl url]"

definition setVoiceUrl :: "string \<Rightarrow> 'u ConfigurationState \<Rightarrow> 'u ConfigurationState" where
  "setVoiceUrl url = set_state [VoiceUrl url]"

definition setVoiceParams :: "'u js_record \<Rightarrow> 'u ConfigurationState \<Rightarrow> 'u ConfigurationState" where
  "setVoiceParams params = set_state [VoiceParams params]"

definition setVideoEnabled :: "bool \<Rightarrow> 'u ConfigurationState \<Rightarrow> 'u ConfigurationState" where
  "setVideoEnabled enabled = set_state [VideoEnabled enabled]"

definition setAudioEnabled :: "bool \<Rightarrow> 'u ConfigurationState \<Rightarrow> 'u ConfigurationState" where
  "setAudioEnabled enabled = set_state [AudioEnabled enabled]"

definition setVideoQuality :: "Quality \<Rightarrow> 'u ConfigurationState \<Rightarrow> 'u ConfigurationState" where
  "setVideoQuality quality = set_state [VideoQuality quality]"

definition setAudioQuality :: "Quality \<Rightarrow> 'u ConfigurationState \<Rightarrow> 'u ConfigurationState" where
  "setAudioQuality quality = set_state [AudioQuality quality]"

definition resetToDefaults :: "'u ConfigurationState \<Rightarrow> 'u ConfigurationState" where
  "resetToDefaults =
     set_state
       [SelectedProvider agora,
        OpenapiHost '''',
        OpenapiCredential '''',
        AuthMethodP token,
        AvatarId '''',
        VoiceId '''',
        KnowledgeId '''',
        SessionDuration 10,
        ModeType 2,
        Language ''en'',
        SceneModeP EmptyString,
        E2eType EmptyString,
        BackgroundUrl '''',
        VoiceUrl '''',
        VoiceParams [],
        VideoEnabled True,
        AudioEnabled True,
        VideoQuality medium,
        AudioQuality medium]"

subsection \<open>Getters\<close>

text \<open>
  A string is truthy when it is not empty. \<^verbatim>\<open>a && b\<close> is \<^verbatim>\<open>a\<close> when \<^verbatim>\<open>a\<close> is falsy and
  \<^verbatim>\<open>b\<close> otherwise, and \<^verbatim>\<open>!!\<close> reads the truthiness of the result.
\<close>

definition truthy :: "string \<Rightarrow> bool" where
  "truthy s = (s \<noteq> [])"

definition js_and :: "string \<Rightarrow> string \<Rightarrow> string" where
  "js_and a b = (if truthy a then b else a)"

definition isApiConfigured :: "'u ConfigurationState \<Rightarrow> bool" where
  "isApiConfigured state = truthy (js_and (openapiHost state) (openapiCredential state))"

definition isAvatarConfigured :: "'u ConfigurationState \<Rightarrow> bool" where
  "isAvatarConfigured state = truthy (avatarId state)"

definition isFullyConfigured :: "'u ConfigurationState \<Rightarrow> bool" where
  "isFullyConfigured state =
     truthy (js_and (js_and (openapiHost state) (openapiCredential state)) (avatarId state))"

subsection \<open>The session options\<close>

text \<open>
  The values a property of the returned object can hold. The object is the list of its own
  properties, in the order of the literal that builds it.
\<close>

datatype 'u js_value =
    JUndefined
  | JString string
  | JNumber int
  | JProvider StreamProviderType
  | JSceneMode SceneMode
  | JE2EType E2EType
  | JRecord "'u js_record"

type_synonym 'u js_object = "(string \<times> 'u js_value) list"

text \<open>\<^verbatim>\<open>Object.keys\<close>, for the parameter mapping and for the returned object.\<close>

definition Object_keys :: "(string \<times> 'v) list \<Rightarrow> string list" where
  "Object_keys obj = map fst obj"

text \<open>Reading a property: \<^verbatim>\<open>obj[k]\<close> is \<^verbatim>\<open>undefined\<close> when the object has no property \<^verbatim>\<open>k\<close>.\<close>

definition get_property :: "'u js_object \<Rightarrow> string \<Rightarrow> 'u js_value" where
  "get_property obj k = (case map_of obj k of None \<Rightarrow> JUndefined | Some v \<Rightarrow> v)"

text \<open>The properties whose value is not \<^verbatim>\<open>undefined\<close>.\<close>

definition defined_properties :: "'u js_object \<Rightarrow> 'u js_object" where
  "defined_properties obj = filter (\<lambda>kv. snd kv \<noteq> JUndefined) obj"

text \<open>
  \<^verbatim>\<open>x || undefined\<close> on a string: the string when it is truthy, \<^verbatim>\<open>undefined\<close> otherwise. On a
  field of type \<^verbatim>\<open>T | ''\<close> the same test is the case distinction on \<open>EmptyString\<close>.
\<close>

definition or_undefined :: "string \<Rightarrow> 'u js_value" where
  "or_undefined s = (if truthy s then JString s else JUndefined)"

definition getSessionOptions :: "'u ConfigurationState \<Rightarrow> 'u js_object" where
  "getSessionOptions state =
     [(''avatar_id'', JString (avatarId state)),
      (''duration'', JNumber (sessionDuration state)),
      (''knowledge_id'', or_undefined (knowledgeId state)),
      (''voice_id'', or_undefined (voiceId state)),
      (''voice_url'', or_undefined (voiceUrl state)),
      (''language'', or_undefined (language state)),
      (''mode_type'', JNumber (modeType state)),
      (''background_url'', or_undefined (backgroundUrl state)),
      (''voice_params'',
         if length (Object_keys (voiceParams state)) > 0 then JRecord (voiceParams state)
         else JUndefined),
      (''stream_type'', JProvider (selectedProvider state)),
      (''scene_mode'',
         case sceneMode state of EmptyString \<Rightarrow> JUndefined | NonEmpty m \<Rightarrow> JSceneMode m),
      (''e2e_type'',
         case e2eType state of EmptyString \<Rightarrow> JUndefined | NonEmpty t \<Rightarrow> JE2EType t)]"

subsection \<open>Validation\<close>

record ValidationResult =
  isValid :: bool
  errors :: "string list"

text \<open>\<^verbatim>\<open>errors.push(m)\<close> appends to the array; each rule reads the state and the array so far.\<close>

definition validateConfiguration :: "'u ConfigurationState \<Rightarrow> ValidationResult" where
  "validateConfiguration state =
     (let errors0 = [];
          errors1 = (if \<not> truthy (openapiHost state)
                     then errors0 @ [''OpenAPI host is required''] else errors0);
          errors2 = (if \<not> truthy (openapiCredential state)
                     then errors1 @ [if authMethod state = token then ''OpenAPI token is required''
                                     else ''API key is required'']
                     else errors1);
          errors3 = (if \<not> truthy (avatarId state)
                     then errors2 @ [''Avatar ID is required''] else errors2);
          errors4 = (if sessionDuration state \<le> 0
                     then errors3 @ [''Session duration must be greater than 0''] else errors3);
          errors5 = (if modeType state < 1 \<or> modeType state > 3
                     then errors4 @ [''Mode type must be between 1 and 3''] else errors4)
      in \<lparr>isValid = (length errors5 = 0), errors = errors5\<rparr>)"

subsection \<open>Persistence\<close>

text \<open>The object the \<^verbatim>\<open>partialize\<close> option of the persist middleware builds from the state.\<close>

definition partialize :: "'u ConfigurationState \<Rightarrow> 'u property list" where
  "partialize state =
     [SelectedProvider (selectedProvider state),
      OpenapiHost (openapiHost state),
      OpenapiCredential (openapiCredential state),
      AuthMethodP (authMethod state),
      AvatarId (avatarId state),
      VoiceId (voiceId state),
      KnowledgeId (knowledgeId state),
      SessionDuration (sessionDuration state),
      ModeType (modeType state),
      Language (language state),
      SceneModeP (sceneMode state),
      E2eType (e2eType state),
      BackgroundUrl (backgroundUrl state),
      VoiceUrl (voiceUrl state),
      VoiceParams (voiceParams state),
      VideoEnabled (videoEnabled state),
      AudioEnabled (audioEnabled state),
      VideoQuality (videoQuality state),
      AudioQuality (audioQuality state)]"

text \<open>The data fields of the \<^verbatim>\<open>ConfigurationState\<close> interface, in the order of their declaration.\<close>

definition state_fields :: "string list" where
  "state_fields =
     [''selectedProvider'', ''openapiHost'', ''openapiCredential'', ''authMethod'',
      ''avatarId'', ''voiceId'', ''knowledgeId'',
      ''sessionDuration'', ''modeType'', ''language'', ''sceneMode'', ''e2eType'',
      ''backgroundUrl'', ''voiceUrl'', ''voiceParams'',
      ''videoEnabled'', ''audioEnabled'', ''videoQuality'', ''audioQuality'']"

text \<open>
  Modelled from the spec: the persist middleware is the zustand library's, not this
  repository's. On start it merges the stored snapshot over the freshly created state, field by
  field: a field the snapshot gives takes the stored value, every other field keeps the value
  the store was created with.
\<close>

definition rehydrate :: "'u property list \<Rightarrow> 'u ConfigurationState \<Rightarrow> 'u ConfigurationState" where
  "rehydrate snapshot created = set_state snapshot created"

subsection \<open>Example states\<close>

text \<open>
  A store that holds the literal defaults: no host, no credential and no avatar, the token
  method, a duration of 10 and mode 2.
\<close>

definition fresh_store :: "string ConfigurationState" where
  "fresh_store =
     \<lparr>selectedProvider = agora, openapiHost = '''', openapiCredential = '''',
      authMethod = token, avatarId = '''', voiceId = '''', knowledgeId = '''',
      sessionDuration = 10, modeType = 2, language = ''en'',
      sceneMode = EmptyString, e2eType = EmptyString,
      backgroundUrl = '''', voiceUrl = '''', voiceParams = [],
      videoEnabled = True, audioEnabled = True, videoQuality = medium, audioQuality = medium\<rparr>"

text \<open>A fully configured store whose mode type is 5.\<close>

definition mode_five_store :: "string ConfigurationState" where
  "mode_five_store =
     fresh_store\<lparr>openapiHost := ''h'', openapiCredential := ''c'', avatarId := ''a'',
                 modeType := 5\<rparr>"

text \<open>
  A store with avatar \<^verbatim>\<open>av1\<close>, duration 10 and mode 2, in which every optional string field,
  the language included, is empty and the parameter mapping has no key.
\<close>

definition bare_avatar_store :: "string ConfigurationState" where
  "bare_avatar_store = fresh_store\<lparr>avatarId := ''av1'', language := ''''\<rparr>"

section \<open>Properties\<close>

subsection \<open>Auxiliary facts\<close>

lemmas setter_defs =
  setSelectedProvider_def setOpenapiHost_def setOpenapiCredential_def setAuthMethod_def
  setAvatarId_def setVoiceId_def setKnowledgeId_def setSessionDuration_def setModeType_def
  setLanguage_def setSceneMode_def setE2eType_def setBackgroundUrl_def setVoiceUrl_def
  setVoiceParams_def setVideoEnabled_def setAudioEnabled_def setVideoQuality_def
  setAudioQuality_def

text \<open>The error array is the concatenation of what the five rules push, in their order.\<close>

lemma errors_by_rule:
  "errors (validateConfiguration s) =
     (if openapiHost s = [] then [''OpenAPI host is required''] else []) @
     (if openapiCredential s = []
      then [if authMethod s = token then ''OpenAPI token is required''
            else ''API key is required'']
      else []) @
     (if avatarId s = [] then [''Avatar ID is required''] else []) @
     (if sessionDuration s \<le> 0 then [''Session duration must be greater than 0''] else []) @
     (if modeType s < 1 \<or> modeType s > 3 then [''Mode type must be between 1 and 3''] else [])"
  by (simp add: validateConfiguration_def Let_def truthy_def)

text \<open>The value held under each key of the returned object.\<close>

lemma session_option_values:
  "get_property (getSessionOptions s) ''avatar_id'' = JString (avatarId s)"
  "get_property (getSessionOptions s) ''duration'' = JNumber (sessionDuration s)"
  "get_property (getSessionOptions s) ''knowledge_id'' =
     (if knowledgeId s = [] then JUndefined else JString (knowledgeId s))"
  "get_property (getSessionOptions s) ''voice_id'' =
     (if voiceId s = [] then JUndefined else JString (voiceId s))"
  "get_property (getSessionOptions s) ''voice_url'' =
     (if voiceUrl s = [] then JUndefined else JString (voiceUrl s))"
  "get_property (getSessionOptions s) ''language'' =
     (if language s = [] then JUndefined else JString (language s))"
  "get_property (getSessionOptions s) ''mode_type'' = JNumber (modeType s)"
  "get_property (getSessionOptions s) ''background_url'' =
     (if backgroundUrl s = [] then JUndefined else JString (backgroundUrl s))"
  "get_property (getSessionOptions s) ''voice_params'' =
     (if Object_keys (voiceParams s) = [] then JUndefined else JRecord (voiceParams s))"
  "get_property (getSessionOptions s) ''stream_type'' = JProvider (selectedProvider s)"
  "get_property (getSessionOptions s) ''scene_mode'' =
     (case sceneMode s of EmptyString \<Rightarrow> JUndefined | NonEmpty m \<Rightarrow> JSceneMode m)"
  "get_property (getSessionOptions s) ''e2e_type'' =
     (case e2eType s of EmptyString \<Rightarrow> JUndefined | NonEmpty t \<Rightarrow> JE2EType t)"
  by (simp_all add: getSessionOptions_def get_property_def or_undefined_def truthy_def
      Object_keys_def)

lemma session_option_keys:
  "Object_keys (getSessionOptions s) =
     [''avatar_id'', ''duration'', ''knowledge_id'', ''voice_id'', ''voice_url'', ''language'',
      ''mode_type'', ''background_url'', ''voice_params'', ''stream_type'', ''scene_mode'',
      ''e2e_type'']"
  by (simp add: getSessionOptions_def Object_keys_def)

lemma resetToDefaults_literal:
  "resetToDefaults s =
     \<lparr>selectedProvider = agora, openapiHost = '''', openapiCredential = '''',
      authMethod = token, avatarId = '''', voiceId = '''', knowledgeId = '''',
      sessionDuration = 10, modeType = 2, language = ''en'',
      sceneMode = EmptyString, e2eType = EmptyString,
      backgroundUrl = '''', voiceUrl = '''', voiceParams = [],
      videoEnabled = True, audioEnabled = True, videoQuality = medium, audioQuality = medium\<rparr>"
  by (simp add: resetToDefaults_def)

subsection \<open>Mutators\<close>

text \<open>
  C4. For every field and every value of its type, the setter followed by a read of the field
  returns exactly the value, and the state after the call is the state before it with that one
  field replaced, so every other field is unchanged. In particular \<^verbatim>\<open>setSceneMode\<close> leaves
  \<^verbatim>\<open>e2eType\<close> as it was.
\<close>

theorem setters_roundtrip_and_frame:
  "selectedProvider (setSelectedProvider provider s) = provider
     \<and> setSelectedProvider provider s = s\<lparr>selectedProvider := provider\<rparr>
   \<and> openapiHost (setOpenapiHost host s) = host
     \<and> setOpenapiHost host s = s\<lparr>openapiHost := host\<rparr>
   \<and> openapiCredential (setOpenapiCredential credential s) = credential
     \<and> setOpenapiCredential credential s = s\<lparr>openapiCredential := credential\<rparr>
   \<and> authMethod (setAuthMethod method s) = method
     \<and> setAuthMethod method s = s\<lparr>authMethod := method\<rparr>
   \<and> avatarId (setAvatarId avatar s) = avatar
     \<and> setAvatarId avatar s = s\<lparr>avatarId := avatar\<rparr>
   \<and> voiceId (setVoiceId voice s) = voice
     \<and> setVoiceId voice s = s\<lparr>voiceId := voice\<rparr>
   \<and> knowledgeId (setKnowledgeId knowledge s) = knowledge
     \<and> setKnowledgeId knowledge s = s\<lparr>knowledgeId := knowledge\<rparr>
   \<and> sessionDuration (setSessionDuration duration s) = duration
     \<and> setSessionDuration duration s = s\<lparr>sessionDuration := duration\<rparr>
   \<and> modeType (setModeType mode s) = mode
     \<and> setModeType mode s = s\<lparr>modeType := mode\<rparr>
   \<and> language (setLanguage lang s) = lang
     \<and> setLanguage lang s = s\<lparr>language := lang\<rparr>
   \<and> sceneMode (setSceneMode scene s) = scene
     \<and> setSceneMode scene s = s\<lparr>sceneMode := scene\<rparr>
     \<and> e2eType (setSceneMode scene s) = e2eType s
   \<and> e2eType (setE2eType e2e s) = e2e
     \<and> setE2eType e2e s = s\<lparr>e2eType := e2e\<rparr>
   \<and> backgroundUrl (setBackgroundUrl background s) = background
     \<and> setBackgroundUrl background s = s\<lparr>backgroundUrl := background\<rparr>
   \<and> voiceUrl (setVoiceUrl url s) = url
     \<and> setVoiceUrl url s = s\<lparr>voiceUrl := url\<rparr>
   \<and> voiceParams (setVoiceParams params s) = params
     \<and> setVoiceParams params s = s\<lparr>voiceParams := params\<rparr>
   \<and> videoEnabled (setVideoEnabled video s) = video
     \<and> setVideoEnabled video s = s\<lparr>videoEnabled := video\<rparr>
   \<and> audioEnabled (setAudioEnabled audio s) = audio
     \<and> setAudioEnabled audio s = s\<lparr>audioEnabled := audio\<rparr>
   \<and> videoQuality (setVideoQuality vq s) = vq
     \<and> setVideoQuality vq s = s\<lparr>videoQuality := vq\<rparr>
   \<and> audioQuality (setAudioQuality aq s) = aq
     \<and> setAudioQuality aq s = s\<lparr>audioQuality := aq\<rparr>"
  by (simp add: setter_defs)

subsection \<open>Reset\<close>

text \<open>
  C5. Whatever state the store is in, \<^verbatim>\<open>resetToDefaults\<close> leaves it in one fixed state, the
  record of the literal defaults; the state the store started from, environment-derived or
  not, has no influence. Hence a second reset changes nothing.
\<close>

theorem resetToDefaults_fixed_and_idempotent:
  "resetToDefaults s =
     \<lparr>selectedProvider = agora, openapiHost = '''', openapiCredential = '''',
      authMethod = token, avatarId = '''', voiceId = '''', knowledgeId = '''',
      sessionDuration = 10, modeType = 2, language = ''en'',
      sceneMode = EmptyString, e2eType = EmptyString,
      backgroundUrl = '''', voiceUrl = '''', voiceParams = [],
      videoEnabled = True, audioEnabled = True, videoQuality = medium, audioQuality = medium\<rparr>
   \<and> resetToDefaults s = resetToDefaults s'
   \<and> resetToDefaults (resetToDefaults s) = resetToDefaults s"
  by (simp add: resetToDefaults_literal)

subsection \<open>Derived queries\<close>

text \<open>
  C8. \<^verbatim>\<open>isFullyConfigured\<close> holds exactly when \<^verbatim>\<open>isApiConfigured\<close> and
  \<^verbatim>\<open>isAvatarConfigured\<close> both hold; \<^verbatim>\<open>isApiConfigured\<close> holds exactly when host and credential
  are both non-empty, and \<^verbatim>\<open>isAvatarConfigured\<close> exactly when the avatar id is non-empty.
\<close>

theorem isFullyConfigured_iff:
  "isFullyConfigured s = (isApiConfigured s \<and> isAvatarConfigured s)
   \<and> isApiConfigured s = (openapiHost s \<noteq> [] \<and> openapiCredential s \<noteq> [])
   \<and> isAvatarConfigured s = (avatarId s \<noteq> [])"
  by (simp add: isFullyConfigured_def isApiConfigured_def isAvatarConfigured_def js_and_def
      truthy_def)

subsection \<open>Validation\<close>

text \<open>
  C2. \<^verbatim>\<open>validateConfiguration\<close> evaluates five rules in a fixed order, and each violated rule
  appends one message: an empty host, an empty credential (with a text that depends on the
  authentication method), an empty avatar id, a duration that is not positive, a mode type
  below 1 or above 3. With host, credential and avatar id empty, the token method, and a valid
  duration and mode type, the errors are the host, token and avatar messages, in that order.
\<close>

theorem validateConfiguration_rules:
  "errors (validateConfiguration s) =
     (if openapiHost s = [] then [''OpenAPI host is required''] else []) @
     (if openapiCredential s = []
      then [if authMethod s = token then ''OpenAPI token is required''
            else ''API key is required'']
      else []) @
     (if avatarId s = [] then [''Avatar ID is required''] else []) @
     (if sessionDuration s \<le> 0 then [''Session duration must be greater than 0''] else []) @
     (if modeType s < 1 \<or> modeType s > 3 then [''Mode type must be between 1 and 3''] else [])
   \<and> (openapiHost s = [] \<and> openapiCredential s = [] \<and> avatarId s = []
        \<and> authMethod s = token \<and> 0 < sessionDuration s \<and> 1 \<le> modeType s \<and> modeType s \<le> 3
      \<longrightarrow> errors (validateConfiguration s) =
            [''OpenAPI host is required'', ''OpenAPI token is required'',
             ''Avatar ID is required''])"
  by (simp add: errors_by_rule)

theorem validateConfiguration_rules_witness:
  "openapiHost fresh_store = [] \<and> openapiCredential fresh_store = []
   \<and> avatarId fresh_store = [] \<and> authMethod fresh_store = token
   \<and> 0 < sessionDuration fresh_store \<and> 1 \<le> modeType fresh_store \<and> modeType fresh_store \<le> 3
   \<and> errors (validateConfiguration fresh_store) =
       [''OpenAPI host is required'', ''OpenAPI token is required'', ''Avatar ID is required'']"
proof -
  have pre:
    "openapiHost fresh_store = [] \<and> openapiCredential fresh_store = []
     \<and> avatarId fresh_store = [] \<and> authMethod fresh_store = token
     \<and> 0 < sessionDuration fresh_store \<and> 1 \<le> modeType fresh_store
     \<and> modeType fresh_store \<le> 3"
    by (simp add: fresh_store_def)
  with validateConfiguration_rules [of fresh_store] show ?thesis
    by blast
qed

text \<open>
  C3. \<^verbatim>\<open>validateConfiguration\<close> is a total function of the state: for every state it returns a
  result, and the result's \<^verbatim>\<open>isValid\<close> flag is true exactly when its error array is empty.
\<close>

theorem validateConfiguration_isValid_iff:
  "(\<exists>es. validateConfiguration s = \<lparr>isValid = (es = []), errors = es\<rparr>)
   \<and> isValid (validateConfiguration s) = (errors (validateConfiguration s) = [])"
  by (simp add: validateConfiguration_def Let_def)

text \<open>
  C7. The mode-type message is among the errors exactly when the mode type is below 1 or
  above 3. The rules do not interfere: when host, credential and avatar id are non-empty and
  the duration is positive, a mode type of 5 yields the mode-type message and nothing else.
\<close>

theorem modeType_rule_independent:
  "(''Mode type must be between 1 and 3'' \<in> set (errors (validateConfiguration s)))
     = (modeType s < 1 \<or> 3 < modeType s)
   \<and> (openapiHost s \<noteq> [] \<and> openapiCredential s \<noteq> [] \<and> avatarId s \<noteq> []
        \<and> 0 < sessionDuration s \<and> modeType s = 5
      \<longrightarrow> errors (validateConfiguration s) = [''Mode type must be between 1 and 3''])"
  by (simp add: errors_by_rule)

theorem modeType_rule_independent_witness:
  "openapiHost mode_five_store \<noteq> [] \<and> openapiCredential mode_five_store \<noteq> []
   \<and> avatarId mode_five_store \<noteq> [] \<and> 0 < sessionDuration mode_five_store
   \<and> modeType mode_five_store = 5
   \<and> errors (validateConfiguration mode_five_store) = [''Mode type must be between 1 and 3'']"
proof -
  have pre:
    "openapiHost mode_five_store \<noteq> [] \<and> openapiCredential mode_five_store \<noteq> []
     \<and> avatarId mode_five_store \<noteq> [] \<and> 0 < sessionDuration mode_five_store
     \<and> modeType mode_five_store = 5"
    by (simp add: mode_five_store_def fresh_store_def)
  with modeType_rule_independent [of mode_five_store] show ?thesis
    by blast
qed

subsection \<open>Persistence\<close>

text \<open>
  C6. The object \<^verbatim>\<open>partialize\<close> builds has one property for every data field of the state, so
  merging it into any freshly created state gives back the state it was built from.
\<close>

theorem partialize_all_fields_roundtrip:
  "map property_key (partialize s) = state_fields
   \<and> rehydrate (partialize s) created = s"
  by (simp add: partialize_def state_fields_def rehydrate_def)

subsection \<open>The session options\<close>

text \<open>
  C9. \<^verbatim>\<open>getSessionOptions\<close> is a total function of the state and checks nothing: the keys
  \<^verbatim>\<open>avatar_id\<close> and \<^verbatim>\<open>duration\<close> are always there and hold the stored avatar id and duration as they
  are. A state with an empty avatar id and a duration of zero or below fails validation and
  still yields these two entries, with the empty string and the stored number.
\<close>

theorem getSessionOptions_no_validation:
  "''avatar_id'' \<in> set (Object_keys (getSessionOptions s))
   \<and> ''duration'' \<in> set (Object_keys (getSessionOptions s))
   \<and> get_property (getSessionOptions s) ''avatar_id'' = JString (avatarId s)
   \<and> get_property (getSessionOptions s) ''duration'' = JNumber (sessionDuration s)
   \<and> \<not> isValid (validateConfiguration (s\<lparr>avatarId := '''', sessionDuration := 0\<rparr>))
   \<and> get_property (getSessionOptions (s\<lparr>avatarId := '''', sessionDuration := 0\<rparr>)) ''avatar_id''
       = JString ''''
   \<and> get_property (getSessionOptions (s\<lparr>avatarId := '''', sessionDuration := 0\<rparr>)) ''duration''
       = JNumber 0
   \<and> \<not> isValid (validateConfiguration (s\<lparr>sessionDuration := - 5\<rparr>))
   \<and> get_property (getSessionOptions (s\<lparr>sessionDuration := - 5\<rparr>)) ''duration''
       = JNumber (- 5)"
  by (simp add: session_option_keys session_option_values validateConfiguration_def Let_def)

text \<open>
  C1, as amended. The object \<^verbatim>\<open>getSessionOptions\<close> returns always has the same twelve keys.
  \<^verbatim>\<open>avatar_id\<close>, \<^verbatim>\<open>duration\<close>, \<^verbatim>\<open>mode_type\<close> and \<^verbatim>\<open>stream_type\<close> hold the stored values. Each of
  \<^verbatim>\<open>knowledge_id\<close>, \<^verbatim>\<open>voice_id\<close>, \<^verbatim>\<open>voice_url\<close>, \<^verbatim>\<open>language\<close> and \<^verbatim>\<open>background_url\<close> holds the
  stored string when it is not empty and \<^verbatim>\<open>undefined\<close>, never the empty string, when it is;
  \<^verbatim>\<open>voice_params\<close> holds the mapping when it has a key and \<^verbatim>\<open>undefined\<close> otherwise;
  \<^verbatim>\<open>scene_mode\<close> and \<^verbatim>\<open>e2e_type\<close> hold the stored value when it is not empty and \<^verbatim>\<open>undefined\<close>
  otherwise. For avatar \<^verbatim>\<open>av1\<close>, duration 10, mode 2, empty optional fields and an empty
  mapping, the properties with a defined value are exactly \<^verbatim>\<open>avatar_id\<close>, \<^verbatim>\<open>duration\<close>,
  \<^verbatim>\<open>mode_type\<close> and \<^verbatim>\<open>stream_type\<close>.
\<close>

theorem getSessionOptions_entries:
  "Object_keys (getSessionOptions s) =
     [''avatar_id'', ''duration'', ''knowledge_id'', ''voice_id'', ''voice_url'', ''language'',
      ''mode_type'', ''background_url'', ''voice_params'', ''stream_type'', ''scene_mode'',
      ''e2e_type'']
   \<and> get_property (getSessionOptions s) ''avatar_id'' = JString (avatarId s)
   \<and> get_property (getSessionOptions s) ''duration'' = JNumber (sessionDuration s)
   \<and> get_property (getSessionOptions s) ''knowledge_id'' =
       (if knowledgeId s = [] then JUndefined else JString (knowledgeId s))
   \<and> get_property (getSessionOptions s) ''voice_id'' =
       (if voiceId s = [] then JUndefined else JString (voiceId s))
   \<and> get_property (getSessionOptions s) ''voice_url'' =
       (if voiceUrl s = [] then JUndefined else JString (voiceUrl s))
   \<and> get_property (getSessionOptions s) ''language'' =
       (if language s = [] then JUndefined else JString (language s))
   \<and> get_property (getSessionOptions s) ''mode_type'' = JNumber (modeType s)
   \<and> get_property (getSessionOptions s) ''background_url'' =
       (if backgroundUrl s = [] then JUndefined else JString (backgroundUrl s))
   \<and> get_property (getSessionOptions s) ''voice_params'' =
       (if Object_keys (voiceParams s) = [] then JUndefined else JRecord (voiceParams s))
   \<and> get_property (getSessionOptions s) ''stream_type'' = JProvider (selectedProvider s)
   \<and> get_property (getSessionOptions s) ''scene_mode'' =
       (case sceneMode s of EmptyString \<Rightarrow> JUndefined | NonEmpty m \<Rightarrow> JSceneMode m)
   \<and> get_property (getSessionOptions s) ''e2e_type'' =
       (case e2eType s of EmptyString \<Rightarrow> JUndefined | NonEmpty t \<Rightarrow> JE2EType t)
   \<and> defined_properties (getSessionOptions
        (s\<lparr>avatarId := ''av1'', sessionDuration := 10, modeType := 2,
           knowledgeId := '''', voiceId := '''', voiceUrl := '''', language := '''',
           backgroundUrl := '''', voiceParams := [],
           sceneMode := EmptyString, e2eType := EmptyString\<rparr>)) =
       [(''avatar_id'', JString ''av1''), (''duration'', JNumber 10),
        (''mode_type'', JNumber 2), (''stream_type'', JProvider (selectedProvider s))]"
proof -
  have "defined_properties (getSessionOptions
        (s\<lparr>avatarId := ''av1'', sessionDuration := 10, modeType := 2,
           knowledgeId := '''', voiceId := '''', voiceUrl := '''', language := '''',
           backgroundUrl := '''', voiceParams := [],
           sceneMode := EmptyString, e2eType := EmptyString\<rparr>)) =
       [(''avatar_id'', JString ''av1''), (''duration'', JNumber 10),
        (''mode_type'', JNumber 2), (''stream_type'', JProvider (selectedProvider s))]"
    by (simp add: getSessionOptions_def defined_properties_def or_undefined_def truthy_def
        Object_keys_def)
  then show ?thesis
    by (simp add: session_option_keys session_option_values)
qed

text \<open>
  The keys of an empty field are not left out. In the store with avatar \<^verbatim>\<open>av1\<close>, duration 10
  and mode 2 the voice id is empty, and yet \<^verbatim>\<open>voice_id\<close> is a key of the returned object: the
  object has twelve keys, not the four that hold a value.
\<close>

theorem getSessionOptions_keeps_empty_keys:
  "avatarId bare_avatar_store = ''av1'' \<and> sessionDuration bare_avatar_store = 10
   \<and> modeType bare_avatar_store = 2 \<and> voiceId bare_avatar_store = ''''
   \<and> ''voice_id'' \<in> set (Object_keys (getSessionOptions bare_avatar_store))
   \<and> get_property (getSessionOptions bare_avatar_store) ''voice_id'' = JUndefined
   \<and> length (Object_keys (getSessionOptions bare_avatar_store)) = 12
   \<and> Object_keys (getSessionOptions bare_avatar_store) \<noteq>
       [''avatar_id'', ''duration'', ''mode_type'', ''stream_type'']"
  by (simp add: session_option_keys session_option_values bare_avatar_store_def fresh_store_def)

text \<open>
  C10, as amended. Right after a reset the returned object holds the string \<^verbatim>\<open>en\<close> under
  \<^verbatim>\<open>language\<close>, since the literal default of the language is that non-empty string. Of the
  optional string fields it is the only one that holds a string then: \<^verbatim>\<open>knowledge_id\<close>,
  \<^verbatim>\<open>voice_id\<close>, \<^verbatim>\<open>voice_url\<close> and \<^verbatim>\<open>background_url\<close>, and \<^verbatim>\<open>scene_mode\<close> and \<^verbatim>\<open>e2e_type\<close>
  with them, are keys of the object as well and hold \<^verbatim>\<open>undefined\<close>. The object of a reset
  store is one fixed list of twelve properties.
\<close>

theorem reset_options_language:
  "language (resetToDefaults s) = ''en''
   \<and> getSessionOptions (resetToDefaults s) =
       [(''avatar_id'', JString ''''),
        (''duration'', JNumber 10),
        (''knowledge_id'', JUndefined),
        (''voice_id'', JUndefined),
        (''voice_url'', JUndefined),
        (''language'', JString ''en''),
        (''mode_type'', JNumber 2),
        (''background_url'', JUndefined),
        (''voice_params'', JUndefined),
        (''stream_type'', JProvider agora),
        (''scene_mode'', JUndefined),
        (''e2e_type'', JUndefined)]
   \<and> Object_keys (getSessionOptions (resetToDefaults s)) =
       [''avatar_id'', ''duration'', ''knowledge_id'', ''voice_id'', ''voice_url'', ''language'',
        ''mode_type'', ''background_url'', ''voice_params'', ''stream_type'', ''scene_mode'',
        ''e2e_type'']
   \<and> ''language'' \<in> set (Object_keys (getSessionOptions (resetToDefaults s)))
   \<and> get_property (getSessionOptions (resetToDefaults s)) ''language'' = JString ''en''
   \<and> ''knowledge_id'' \<in> set (Object_keys (getSessionOptions (resetToDefaults s)))
   \<and> get_property (getSessionOptions (resetToDefaults s)) ''knowledge_id'' = JUndefined
   \<and> ''voice_id'' \<in> set (Object_keys (getSessionOptions (resetToDefaults s)))
   \<and> get_property (getSessionOptions (resetToDefaults s)) ''voice_id'' = JUndefined
   \<and> ''voice_url'' \<in> set (Object_keys (getSessionOptions (resetToDefaults s)))
   \<and> get_property (getSessionOptions (resetToDefaults s)) ''voice_url'' = JUndefined
   \<and> ''background_url'' \<in> set (Object_keys (getSessionOptions (resetToDefaults s)))
   \<and> get_property (getSessionOptions (resetToDefaults s)) ''background_url'' = JUndefined
   \<and> ''scene_mode'' \<in> set (Object_keys (getSessionOptions (resetToDefaults s)))
   \<and> get_property (getSessionOptions (resetToDefaults s)) ''scene_mode'' = JUndefined
   \<and> ''e2e_type'' \<in> set (Object_keys (getSessionOptions (resetToDefaults s)))
   \<and> get_property (getSessionOptions (resetToDefaults s)) ''e2e_type'' = JUndefined"
proof -
  have object:
    "getSessionOptions (resetToDefaults s) =
       [(''avatar_id'', JString ''''),
        (''duration'', JNumber 10),
        (''knowledge_id'', JUndefined),
        (''voice_id'', JUndefined),
        (''voice_url'', JUndefined),
        (''language'', JString ''en''),
        (''mode_type'', JNumber 2),
        (''background_url'', JUndefined),
        (''voice_params'', JUndefined),
        (''stream_type'', JProvider agora),
        (''scene_mode'', JUndefined),
        (''e2e_type'', JUndefined)]"
    by (simp add: resetToDefaults_literal getSessionOptions_def or_undefined_def truthy_def
        Object_keys_def)
  have lang: "language (resetToDefaults s) = ''en''"
    by (simp add: resetToDefaults_literal)
  from lang show ?thesis
    by (simp add: object Object_keys_def get_property_def)
qed

text \<open>
  The language is not the only optional string field the object of a reset store has a key
  for: the four other string fields are keys of it as well, and so are the scene mode and the
  end-to-end type.
\<close>

theorem reset_options_keep_other_keys:
  "''knowledge_id'' \<in> set (Object_keys (getSessionOptions (resetToDefaults mode_five_store)))
   \<and> ''voice_id'' \<in> set (Object_keys (getSessionOptions (resetToDefaults mode_five_store)))
   \<and> ''voice_url'' \<in> set (Object_keys (getSessionOptions (resetToDefaults mode_five_store)))
   \<and> ''background_url'' \<in> set (Object_keys (getSessionOptions (resetToDefaults mode_five_store)))
   \<and> ''scene_mode'' \<in> set (Object_keys (getSessionOptions (resetToDefaults mode_five_store)))
   \<and> ''e2e_type'' \<in> set (Object_keys (getSessionOptions (resetToDefaults mode_five_store)))
   \<and> length (Object_keys (getSessionOptions (resetToDefaults mode_five_store))) = 12"
  by (simp add: session_option_keys)

end
